theory Spec2Isabelle
  imports Complex_Main
begin

section \<open>Python values, exceptions and built-in containers\<close>

text \<open>
  The module under verification is \<^verbatim>\<open>vlbiplanobs/stations.py\<close>. Exceptions are values:
  a method that can raise returns the exception next to (or instead of) its result.
  Assertions are modelled as the interpreter runs them by default (\<^verbatim>\<open>__debug__\<close> true).
\<close>

datatype py_error = AssertionError | KeyError | IndexError | TypeError | NameError string

text \<open>The values a caller can hand to the \<^verbatim>\<open>selected\<close> setter.\<close>

datatype py_value = PyNone | PyBool bool | PyInt int | PyStr string

text \<open>\<^verbatim>\<open>isinstance(v, bool)\<close>: \<^verbatim>\<open>bool\<close> has no subclasses, an \<^verbatim>\<open>int\<close> is not a \<^verbatim>\<open>bool\<close>.\<close>

definition isinstance_bool :: "py_value \<Rightarrow> bool" where
  "isinstance_bool v = (case v of PyBool _ \<Rightarrow> True | _ \<Rightarrow> False)"

text \<open>\<^verbatim>\<open>s.replace(old, new)\<close> for one-character \<^verbatim>\<open>old\<close> and \<^verbatim>\<open>new\<close>.\<close>

definition str_replace :: "char \<Rightarrow> char \<Rightarrow> string \<Rightarrow> string" where
  "str_replace old new s = map (\<lambda>c. if c = old then new else c) s"

text \<open>
  A \<^verbatim>\<open>dict\<close> whose iteration order matters is an association list in insertion order:
  storing under a key that is present replaces the value where it stands, storing under
  a new key appends.
\<close>

type_synonym ('k, 'v) dict = "('k \<times> 'v) list"

definition dict_keys :: "('k, 'v) dict \<Rightarrow> 'k list" where
  "dict_keys d = map fst d"

definition dict_values :: "('k, 'v) dict \<Rightarrow> 'v list" where
  "dict_values d = map snd d"

definition dict_contains :: "('k, 'v) dict \<Rightarrow> 'k \<Rightarrow> bool" where
  "dict_contains d k = (k \<in> set (dict_keys d))"

fun dict_getitem :: "('k, 'v) dict \<Rightarrow> 'k \<Rightarrow> py_error + 'v" where
  "dict_getitem [] k = Inl KeyError"
| "dict_getitem ((k', v) # d) k = (if k' = k then Inr v else dict_getitem d k)"

fun dict_setitem :: "('k, 'v) dict \<Rightarrow> 'k \<Rightarrow> 'v \<Rightarrow> ('k, 'v) dict" where
  "dict_setitem [] k v = [(k, v)]"
| "dict_setitem ((k', v') # d) k v =
     (if k' = k then (k, v) # d else (k', v') # dict_setitem d k v)"

fun dict_delitem :: "('k, 'v) dict \<Rightarrow> 'k \<Rightarrow> py_error + ('k, 'v) dict" where
  "dict_delitem [] k = Inl KeyError"
| "dict_delitem ((k', v') # d) k =
     (if k' = k then Inr d
      else (case dict_delitem d k of Inl e \<Rightarrow> Inl e | Inr d' \<Rightarrow> Inr ((k', v') # d')))"

text \<open>\<^verbatim>\<open>t[i]\<close> on a tuple: a negative index counts from the end, out of range raises.\<close>

definition tuple_getitem :: "'a list \<Rightarrow> int \<Rightarrow> py_error + 'a" where
  "tuple_getitem t i =
     (if 0 \<le> i \<and> i < int (length t) then Inr (t ! nat i)
      else if i < 0 \<and> - int (length t) \<le> i then Inr (t ! nat (int (length t) + i))
      else Inl IndexError)"

text \<open>
  \<^verbatim>\<open>m[i]\<close> where \<^verbatim>\<open>m\<close> is a bound method (the method itself, not the result of calling
  it): a method object has no \<^verbatim>\<open>__getitem__\<close>, so the subscript raises for every index.
\<close>

definition method_getitem :: "int \<Rightarrow> py_error + 'a" where
  "method_getitem i = Inl TypeError"

text \<open>
  The names bound at module level in \<^verbatim>\<open>stations.py\<close>: its eight imports and its three
  classes. Reading any other global name raises \<^verbatim>\<open>NameError\<close>.
\<close>

definition module_globals :: "string list" where
  "module_globals =
     [''configparser'', ''resources'', ''np'', ''u'', ''coord'', ''ascii'', ''Time'',
      ''Observer'', ''Station'', ''SelectedStation'', ''Stations'']"

definition load_global :: "string \<Rightarrow> py_error + unit" where
  "load_global x = (if x \<in> set module_globals then Inr () else Inl (NameError x))"

text \<open>
  \<^verbatim>\<open>np.where(cond)\<close> on a one-dimensional boolean array: a tuple of one array, which
  holds the positions where \<^verbatim>\<open>cond\<close> is true, in increasing order.
\<close>

datatype 'a tuple1 = Tuple1 'a

definition np_where :: "bool list \<Rightarrow> nat list tuple1" where
  "np_where cond = Tuple1 (filter (\<lambda>i. cond ! i) [0..<length cond])"


section \<open>class Station\<close>

text \<open>
  The astroplan \<^verbatim>\<open>Observer\<close> keeps the name and the location it was built with. Its
  \<^verbatim>\<open>altaz\<close> computation belongs to the external library and is a parameter of the
  model: a function from the observer, the times and the target to (altitude, azimuth)
  pairs, one per time, in degrees.
\<close>

type_synonym EarthLocation = "real \<times> real \<times> real"

record Observer =
  obs_name :: string
  obs_location :: EarthLocation

type_synonym ('t, 'g) sky = "Observer \<Rightarrow> 't list \<Rightarrow> 'g \<Rightarrow> (real \<times> real) list"

text \<open>
  The \<^verbatim>\<open>min_elevation\<close> argument is a bare number (\<^verbatim>\<open>float\<close> or \<^verbatim>\<open>int\<close>) or an astropy
  quantity; both are kept here by their value in degrees.
\<close>

datatype angle_arg = Bare real | Quantity real

record Station =
  observer :: Observer
  p_codename :: string
  p_network :: string
  p_freqs_sefds :: "string \<rightharpoonup> real"
  p_min_elev :: real
  p_fullname :: string
  p_all_networks :: string
  p_country :: string
  p_diameter :: string
  p_real_time :: bool

definition Station_init ::
  "string \<Rightarrow> string \<Rightarrow> string \<Rightarrow> EarthLocation \<Rightarrow> (string \<rightharpoonup> real) \<Rightarrow> angle_arg \<Rightarrow>
   string option \<Rightarrow> string option \<Rightarrow> string \<Rightarrow> string \<Rightarrow> bool \<Rightarrow> Station" where
  "Station_init nm cn nw loc fs me fn an co di rt =
     \<lparr> observer = \<lparr> obs_name = str_replace (CHR ''_'') (CHR '' '') nm, obs_location = loc \<rparr>,
       p_codename = cn,
       p_network = nw,
       p_freqs_sefds = fs,
       p_min_elev = (case me of Bare x \<Rightarrow> x | Quantity q \<Rightarrow> q),
       p_fullname = (case fn of None \<Rightarrow> nm | Some f \<Rightarrow> f),
       p_all_networks = (case an of None \<Rightarrow> nw | Some a \<Rightarrow> a),
       p_country = co,
       p_diameter = di,
       p_real_time = rt \<rparr>"

definition name :: "'x Station_scheme \<Rightarrow> string" where
  "name self = obs_name (observer self)"

definition codename :: "'x Station_scheme \<Rightarrow> string" where
  "codename self = p_codename self"

definition fullname :: "'x Station_scheme \<Rightarrow> string" where
  "fullname self = p_fullname self"

definition bands :: "'x Station_scheme \<Rightarrow> string set" where
  "bands self = dom (p_freqs_sefds self)"

definition sefds :: "'x Station_scheme \<Rightarrow> (string \<rightharpoonup> real)" where
  "sefds self = p_freqs_sefds self"

definition min_elevation :: "'x Station_scheme \<Rightarrow> real" where
  "min_elevation self = p_min_elev self"

definition elevation :: "('t, 'g) sky \<Rightarrow> 'x Station_scheme \<Rightarrow> 't list \<Rightarrow> 'g \<Rightarrow> real list" where
  "elevation sky self obs_times target = map fst (sky (observer self) obs_times target)"

definition altaz ::
  "('t, 'g) sky \<Rightarrow> 'x Station_scheme \<Rightarrow> 't list \<Rightarrow> 'g \<Rightarrow> (real \<times> real) list" where
  "altaz sky self obs_times target = sky (observer self) obs_times target"

definition is_visible ::
  "('t, 'g) sky \<Rightarrow> 'x Station_scheme \<Rightarrow> 't list \<Rightarrow> 'g \<Rightarrow> nat list tuple1" where
  "is_visible sky self obs_times target =
     (let elevations = elevation sky self obs_times target
      in np_where (map (\<lambda>e. e \<ge> min_elevation self) elevations))"

definition has_band :: "'x Station_scheme \<Rightarrow> string \<Rightarrow> bool" where
  "has_band self band = (band \<in> bands self)"

definition sefd :: "'x Station_scheme \<Rightarrow> string \<Rightarrow> py_error + real" where
  "sefd self band =
     (case p_freqs_sefds self band of None \<Rightarrow> Inl KeyError | Some v \<Rightarrow> Inr v)"


section \<open>class SelectedStation\<close>

record SelectedStation = Station +
  p_selected :: py_value

definition SelectedStation_init ::
  "string \<Rightarrow> string \<Rightarrow> string \<Rightarrow> EarthLocation \<Rightarrow> (string \<rightharpoonup> real) \<Rightarrow> angle_arg \<Rightarrow>
   string option \<Rightarrow> string option \<Rightarrow> string \<Rightarrow> string \<Rightarrow> bool \<Rightarrow> py_value option \<Rightarrow>
   SelectedStation" where
  "SelectedStation_init nm cn nw loc fs me fn an co di rt sel =
     Station.extend (Station_init nm cn nw loc fs me fn an co di rt)
       (SelectedStation.fields (case sel of None \<Rightarrow> PyBool True | Some v \<Rightarrow> v))"

definition selected :: "SelectedStation \<Rightarrow> py_value" where
  "selected self = p_selected self"

text \<open>
  The setter returns the exception, if any, and the object as it is afterwards: the
  assertion runs before the assignment.
\<close>

definition set_selected :: "SelectedStation \<Rightarrow> py_value \<Rightarrow> py_error option \<times> SelectedStation" where
  "set_selected self isselected =
     (if \<not> isinstance_bool isselected then (Some AssertionError, self)
      else (None, self\<lparr> p_selected := isselected \<rparr>))"


section \<open>class Stations\<close>

text \<open>
  \<^verbatim>\<open>_stations\<close> is the dictionary from codename to station, \<^verbatim>\<open>_keys\<close> the cached tuple
  of its keys. Codenames are strings, as the constructor's documentation has them.
  Stations are held by value here; no property below depends on two registries sharing
  one station object.
\<close>

record 'a Stations =
  p_name :: string
  p_stations :: "(string, 'a) dict"
  p_keys :: "string list"

text \<open>The constructor's loop: the assertion, then the store.\<close>

fun init_loop ::
  "'x Station_scheme list \<Rightarrow> (string, 'x Station_scheme) dict \<Rightarrow>
   py_error + (string, 'x Station_scheme) dict" where
  "init_loop [] d = Inr d"
| "init_loop (a_station # rest) d =
     (if dict_contains d (codename a_station) then Inl AssertionError
      else init_loop rest (dict_setitem d (codename a_station) a_station))"

definition Stations_init ::
  "string \<Rightarrow> 'x Station_scheme list \<Rightarrow> py_error + 'x Station_scheme Stations" where
  "Stations_init nm sts =
     (case init_loop sts [] of
        Inl e \<Rightarrow> Inl e
      | Inr d \<Rightarrow> Inr \<lparr> p_name = nm, p_stations = d, p_keys = dict_keys d \<rparr>)"

definition Stations_name :: "'a Stations \<Rightarrow> string" where
  "Stations_name self = p_name self"

definition stations :: "'a Stations \<Rightarrow> 'a list" where
  "stations self = dict_values (p_stations self)"

definition number_of_stations :: "'a Stations \<Rightarrow> nat" where
  "number_of_stations self = length (stations self)"

text \<open>\<^verbatim>\<open>add\<close> returns the lines it printed and the registry as it is afterwards.\<close>

definition add ::
  "'x Station_scheme Stations \<Rightarrow> 'x Station_scheme \<Rightarrow>
   string list \<times> 'x Station_scheme Stations" where
  "add self a_station =
     (let out = (if dict_contains (p_stations self) (codename a_station)
                 then [''WARNING: '' @ codename a_station @ '' already in '' @
                       Stations_name self @ ''.'']
                 else []);
          d = dict_setitem (p_stations self) (codename a_station) a_station
      in (out, self\<lparr> p_stations := d, p_keys := dict_keys d \<rparr>))"

definition keys :: "'a Stations \<Rightarrow> string list" where
  "keys self = p_keys self"

definition len :: "'a Stations \<Rightarrow> nat" where
  "len self = length (p_stations self)"

text \<open>A subscript is an \<^verbatim>\<open>int\<close> or a codename: the two branches of \<^verbatim>\<open>isinstance(key, int)\<close>.\<close>

datatype key = IntKey int | StrKey string

definition getitem :: "'a Stations \<Rightarrow> key \<Rightarrow> py_error + 'a" where
  "getitem self key =
     (case key of
        IntKey i \<Rightarrow>
          (case tuple_getitem (keys self) i of
             Inl e \<Rightarrow> Inl e
           | Inr k \<Rightarrow> dict_getitem (p_stations self) k)
      | StrKey k \<Rightarrow> dict_getitem (p_stations self) k)"

definition setitem :: "'a Stations \<Rightarrow> string \<Rightarrow> 'a \<Rightarrow> 'a Stations" where
  "setitem self key val =
     (let d = dict_setitem (p_stations self) key val
      in self\<lparr> p_stations := d, p_keys := dict_keys d \<rparr>)"

text \<open>
  \<^verbatim>\<open>__delitem__\<close> returns the exception, if any, and the registry as it is afterwards.
  Its \<^verbatim>\<open>int\<close> branch subscripts \<^verbatim>\<open>self.keys\<close>, the method, where \<^verbatim>\<open>__getitem__\<close>
  subscripts \<^verbatim>\<open>self.keys()\<close>, the tuple. An exception leaves the registry as it was:
  nothing is stored before the dictionary's own deletion succeeds.
\<close>

definition delitem :: "'a Stations \<Rightarrow> key \<Rightarrow> py_error option \<times> 'a Stations" where
  "delitem self key =
     (case (case key of
              IntKey i \<Rightarrow>
                (case method_getitem i of
                   Inl e \<Rightarrow> Inl e
                 | Inr k \<Rightarrow> dict_delitem (p_stations self) k)
            | StrKey k \<Rightarrow> dict_delitem (p_stations self) k) of
        Inl e \<Rightarrow> (Some e, self)
      | Inr d \<Rightarrow> (None, self\<lparr> p_stations := d, p_keys := dict_keys d \<rparr>))"

definition iter :: "'a Stations \<Rightarrow> 'a list" where
  "iter self = dict_values (p_stations self)"

definition contains :: "'a Stations \<Rightarrow> string \<Rightarrow> bool" where
  "contains self item = dict_contains (p_stations self) item"

text \<open>
  \<^verbatim>\<open>stations_with_band\<close>: the default name, then the expression
  \<^verbatim>\<open>stations.Stations(output_network_name, [])\<close>, which first reads the global name
  \<^verbatim>\<open>stations\<close>, then the loop over \<^verbatim>\<open>self.stations\<close>.
\<close>

fun with_band_loop ::
  "'x Station_scheme list \<Rightarrow> string \<Rightarrow> string list \<times> 'x Station_scheme Stations \<Rightarrow>
   string list \<times> 'x Station_scheme Stations" where
  "with_band_loop [] band acc = acc"
| "with_band_loop (station # rest) band (out, antennas) =
     (if band \<in> bands station
      then (case add antennas station of
              (out', antennas') \<Rightarrow> with_band_loop rest band (out @ out', antennas'))
      else with_band_loop rest band (out, antennas))"

definition stations_with_band ::
  "'x Station_scheme Stations \<Rightarrow> string \<Rightarrow> string option \<Rightarrow>
   py_error + string list \<times> 'x Station_scheme Stations" where
  "stations_with_band self band output_network_name =
     (let output_network_name =
            (case output_network_name of None \<Rightarrow> ''Stations@'' @ band | Some n \<Rightarrow> n)
      in case load_global ''stations'' of
           Inl e \<Rightarrow> Inl e
         | Inr _ \<Rightarrow>
             (case Stations_init output_network_name [] of
                Inl e \<Rightarrow> Inl e
              | Inr antennas \<Rightarrow> Inr (with_band_loop (stations self) band ([], antennas))))"

text \<open>
  The registries a program can hold: built by the constructor, then changed by \<^verbatim>\<open>add\<close>,
  by assignment to a key and by \<^verbatim>\<open>del\<close> (whether it raised or not).
\<close>

inductive reachable :: "'x Station_scheme Stations \<Rightarrow> bool" where
  by_init: "Stations_init nm sts = Inr r \<Longrightarrow> reachable r"
| by_add: "reachable r \<Longrightarrow> reachable (snd (add r s))"
| by_setitem: "reachable r \<Longrightarrow> reachable (setitem r k v)"
| by_delitem: "reachable r \<Longrightarrow> reachable (snd (delitem r key))"


section \<open>Example data\<close>

text \<open>Two stations, a selectable station and a one-station registry, for concrete instances.\<close>

abbreviation station_Ef :: Station where
  "station_Ef \<equiv> Station_init ''Effelsberg'' ''Ef'' ''EVN'' (0, 0, 0)
     [''18cm'' \<mapsto> 19, ''6cm'' \<mapsto> 20] (Quantity 20) None None ''Germany'' ''100 m'' True"

abbreviation station_Kp :: Station where
  "station_Kp \<equiv> Station_init ''Kitt_Peak'' ''Kp'' ''VLBA'' (0, 0, 0)
     [''6cm'' \<mapsto> 210] (Bare 10) None None ''USA'' ''25 m'' False"

abbreviation registry_Ef :: "Station Stations" where
  "registry_Ef \<equiv> \<lparr> p_name = ''EVN'', p_stations = [(''Ef'', station_Ef)], p_keys = [''Ef''] \<rparr>"

abbreviation selected_Ef :: SelectedStation where
  "selected_Ef \<equiv> SelectedStation_init ''Effelsberg'' ''Ef'' ''EVN'' (0, 0, 0)
     [''18cm'' \<mapsto> 19] (Quantity 20) None None ''Germany'' ''100 m'' True None"


section \<open>Well-formed registries\<close>

text \<open>
  A registry is well formed when no key occurs twice in its dictionary and the cached
  key tuple is the dictionary's key sequence.
\<close>

definition wf_registry :: "'a Stations \<Rightarrow> bool" where
  "wf_registry r = (distinct (dict_keys (p_stations r)) \<and> p_keys r = dict_keys (p_stations r))"


section \<open>Properties of the dictionary operations\<close>

lemma dict_keys_setitem:
  "dict_keys (dict_setitem d k v) =
     (if k \<in> set (dict_keys d) then dict_keys d else dict_keys d @ [k])"
  by (induction d) (force simp: dict_keys_def)+

lemma dict_setitem_fresh:
  "k \<notin> set (dict_keys d) \<Longrightarrow> dict_setitem d k v = d @ [(k, v)]"
  by (induction d) (auto simp: dict_keys_def)

lemma length_dict_setitem:
  "length (dict_setitem d k v) =
     (if k \<in> set (dict_keys d) then length d else Suc (length d))"
  by (induction d) (force simp: dict_keys_def)+

lemma dict_getitem_setitem_same: "dict_getitem (dict_setitem d k v) k = Inr v"
  by (induction d) auto

lemma dict_getitem_setitem_other:
  "k' \<noteq> k \<Longrightarrow> dict_getitem (dict_setitem d k v) k' = dict_getitem d k'"
  by (induction d) auto

lemma dict_delitem_absent:
  "k \<notin> set (dict_keys d) \<Longrightarrow> dict_delitem d k = Inl KeyError"
  by (induction d) (auto simp: dict_keys_def)

lemma dict_delitem_present:
  "k \<in> set (dict_keys d) \<Longrightarrow> \<exists>d'. dict_delitem d k = Inr d'"
  by (induction d) (force simp: dict_keys_def)+

lemma dict_delitem_keys:
  "dict_delitem d k = Inr d' \<Longrightarrow> dict_keys d' = remove1 k (dict_keys d)"
  by (induction d arbitrary: d') (auto simp: dict_keys_def split: if_splits sum.splits)

lemma dict_getitem_nth:
  "distinct (dict_keys d) \<Longrightarrow> i < length d \<Longrightarrow> dict_getitem d (fst (d ! i)) = Inr (snd (d ! i))"
proof (induction d arbitrary: i)
  case Nil
  then show ?case by simp
next
  case (Cons p d)
  obtain k v where p: "p = (k, v)" by (cases p)
  show ?case
  proof (cases i)
    case 0
    then show ?thesis by (simp add: p)
  next
    case (Suc j)
    with Cons.prems have j: "j < length d" and dist: "distinct (dict_keys d)"
      and fresh: "k \<notin> set (dict_keys d)"
      by (auto simp: dict_keys_def p)
    from j have "fst (d ! j) \<in> set (dict_keys d)" by (simp add: dict_keys_def)
    with fresh have "k \<noteq> fst (d ! j)" by auto
    with Cons.IH [OF dist j] show ?thesis by (simp add: p Suc)
  qed
qed

lemma init_loop_eq:
  "init_loop sts d =
     (if distinct (map codename sts) \<and> set (map codename sts) \<inter> set (dict_keys d) = {}
      then Inr (d @ map (\<lambda>s. (codename s, s)) sts) else Inl AssertionError)"
proof (induction sts arbitrary: d)
  case Nil
  then show ?case by simp
next
  case (Cons a sts)
  show ?case
  proof (cases "codename a \<in> set (dict_keys d)")
    case True
    then show ?thesis by (simp add: dict_contains_def)
  next
    case False
    then have "init_loop (a # sts) d = init_loop sts (d @ [(codename a, a)])"
      by (simp add: dict_contains_def dict_setitem_fresh)
    also have "\<dots> = (if distinct (map codename sts) \<and>
          set (map codename sts) \<inter> set (dict_keys (d @ [(codename a, a)])) = {}
        then Inr ((d @ [(codename a, a)]) @ map (\<lambda>s. (codename s, s)) sts)
        else Inl AssertionError)"
      by (rule Cons.IH)
    also have "\<dots> = (if distinct (map codename (a # sts)) \<and>
          set (map codename (a # sts)) \<inter> set (dict_keys d) = {}
        then Inr (d @ map (\<lambda>s. (codename s, s)) (a # sts))
        else Inl AssertionError)"
      using False by (auto simp: dict_keys_def)
    finally show ?thesis .
  qed
qed

subsection \<open>Every reachable registry is well formed\<close>

lemma wf_init: "Stations_init nm sts = Inr r \<Longrightarrow> wf_registry r"
  by (auto simp: Stations_init_def init_loop_eq wf_registry_def dict_keys_def comp_def
      split: if_splits)

lemma wf_setitem: "wf_registry r \<Longrightarrow> wf_registry (setitem r k v)"
  by (auto simp: wf_registry_def setitem_def Let_def dict_keys_setitem)

lemma wf_add: "wf_registry r \<Longrightarrow> wf_registry (snd (add r s))"
  by (auto simp: wf_registry_def add_def Let_def dict_keys_setitem)

lemma wf_delitem: "wf_registry r \<Longrightarrow> wf_registry (snd (delitem r key))"
  by (cases key)
    (auto simp: wf_registry_def delitem_def method_getitem_def dict_delitem_keys
      split: sum.splits)

lemma reachable_wf: "reachable r \<Longrightarrow> wf_registry r"
  by (induction rule: reachable.induct) (simp_all add: wf_init wf_add wf_setitem wf_delitem)


subsection \<open>Deletion by key\<close>

text \<open>
  The string branch of \<^verbatim>\<open>__delitem__\<close> removes a present key from the dictionary and
  from the cached key tuple.
\<close>

lemma delitem_by_key:
  assumes "wf_registry r" and "contains r k"
  shows "fst (delitem r (StrKey k)) = None"
    and "keys (snd (delitem r (StrKey k))) = remove1 k (keys r)"
    and "\<not> contains (snd (delitem r (StrKey k))) k"
    and "k \<notin> set (keys (snd (delitem r (StrKey k))))"
proof -
  from assms(2) obtain d' where d': "dict_delitem (p_stations r) k = Inr d'"
    using dict_delitem_present by (fastforce simp: contains_def dict_contains_def)
  then have k: "dict_keys d' = remove1 k (dict_keys (p_stations r))"
    by (rule dict_delitem_keys)
  from assms(1) have dist: "distinct (dict_keys (p_stations r))"
    and cache: "p_keys r = dict_keys (p_stations r)"
    by (simp_all add: wf_registry_def)
  show "fst (delitem r (StrKey k)) = None"
    by (simp add: delitem_def d')
  show "keys (snd (delitem r (StrKey k))) = remove1 k (keys r)"
    by (simp add: delitem_def d' keys_def k cache)
  show "\<not> contains (snd (delitem r (StrKey k))) k"
    using dist by (simp add: delitem_def d' contains_def dict_contains_def k)
  show "k \<notin> set (keys (snd (delitem r (StrKey k))))"
    using dist by (simp add: delitem_def d' keys_def k)
qed


section \<open>Properties of the \<^verbatim>\<open>stations_with_band\<close> loop\<close>

text \<open>
  Started on an empty registry, the loop of \<^verbatim>\<open>stations_with_band\<close> would collect the
  stations that have the band, in order, when the codenames of the source are distinct.
\<close>

lemma add_fresh:
  "codename s \<notin> set (dict_keys (p_stations a)) \<Longrightarrow>
   add a s = ([], a\<lparr> p_stations := p_stations a @ [(codename s, s)],
                      p_keys := dict_keys (p_stations a) @ [codename s] \<rparr>)"
  by (simp add: add_def Let_def dict_contains_def dict_setitem_fresh dict_keys_def)

lemma with_band_loop_filter:
  "distinct (map codename sts) \<Longrightarrow>
   set (map codename sts) \<inter> set (dict_keys (p_stations a)) = {} \<Longrightarrow>
   p_keys a = dict_keys (p_stations a) \<Longrightarrow>
   with_band_loop sts band (out, a) =
     (out, a\<lparr> p_stations :=
                p_stations a @ map (\<lambda>s. (codename s, s)) (filter (\<lambda>s. has_band s band) sts),
              p_keys := p_keys a @ map codename (filter (\<lambda>s. has_band s band) sts) \<rparr>)"
proof (induction sts arbitrary: a)
  case Nil
  then show ?case by simp
next
  case (Cons s sts)
  show ?case
  proof (cases "band \<in> bands s")
    case False
    with Cons show ?thesis by (simp add: has_band_def)
  next
    case True
    let ?a = "a\<lparr> p_stations := p_stations a @ [(codename s, s)],
                  p_keys := dict_keys (p_stations a) @ [codename s] \<rparr>"
    from Cons.prems have fresh: "codename s \<notin> set (dict_keys (p_stations a))" by auto
    have step: "with_band_loop (s # sts) band (out, a) = with_band_loop sts band (out, ?a)"
      using True by (simp add: add_fresh [OF fresh])
    have "with_band_loop sts band (out, ?a) =
        (out, ?a\<lparr> p_stations :=
                p_stations ?a @ map (\<lambda>s. (codename s, s)) (filter (\<lambda>s. has_band s band) sts),
              p_keys := p_keys ?a @ map codename (filter (\<lambda>s. has_band s band) sts) \<rparr>)"
      using Cons.prems by (intro Cons.IH) (auto simp: dict_keys_def)
    with step True Cons.prems(3) show ?thesis by (simp add: has_band_def)
  qed
qed


section \<open>The claims\<close>

lemma codename_init [simp]:
  "codename (Station_init nm cn nw loc fs me fn an co di rt) = cn"
  by (simp add: codename_def Station_init_def)

text \<open>
  Claim C1. \<^verbatim>\<open>stations_with_band(band)\<close> is meant to return a new registry holding exactly
  the stations of this one that have the band, in their order, named
  \<^verbatim>\<open>Stations@<band>\<close> by default. The method reads the global name \<^verbatim>\<open>stations\<close>, which
  the module never binds: for every registry, band and output name the call raises
  \<^verbatim>\<open>NameError\<close> and returns no registry.
\<close>

theorem stations_with_band_raises:
  "stations_with_band self band output_network_name = Inl (NameError ''stations'')"
  by (simp add: stations_with_band_def load_global_def module_globals_def)

text \<open>
  Claim C2. Deleting by integer index is meant to remove the entry whose codename stands
  at that position of the key tuple. The \<^verbatim>\<open>int\<close> branch of \<^verbatim>\<open>__delitem__\<close> subscripts the
  method \<^verbatim>\<open>self.keys\<close> instead of the tuple \<^verbatim>\<open>self.keys()\<close>: for every registry and every
  index the deletion raises \<^verbatim>\<open>TypeError\<close> and the registry stays as it was.
\<close>

theorem delitem_by_index_raises:
  "delitem self (IntKey i) = (Some TypeError, self)"
  by (simp add: delitem_def method_getitem_def)

text \<open>
  Claim C3. For every registry, \<^verbatim>\<open>add\<close> of a station whose codename is not present
  raises the number of stations by exactly one and makes that codename the last key;
  \<^verbatim>\<open>add\<close> of a station whose codename is present leaves the number of stations (and the
  key order) unchanged. In both cases the codename then maps to the station added and
  every other codename maps to what it did; \<^verbatim>\<open>add\<close> has no raising branch.
\<close>

theorem add_new_or_existing:
  "(\<not> contains self (codename s) \<longrightarrow>
      number_of_stations (snd (add self s)) = number_of_stations self + 1 \<and>
      keys (snd (add self s)) = dict_keys (p_stations self) @ [codename s] \<and>
      last (keys (snd (add self s))) = codename s) \<and>
   (contains self (codename s) \<longrightarrow>
      number_of_stations (snd (add self s)) = number_of_stations self \<and>
      keys (snd (add self s)) = dict_keys (p_stations self)) \<and>
   getitem (snd (add self s)) (StrKey (codename s)) = Inr s \<and>
   (\<forall>k. k \<noteq> codename s \<longrightarrow>
      getitem (snd (add self s)) (StrKey k) = getitem self (StrKey k))"
  by (simp add: contains_def dict_contains_def add_def Let_def number_of_stations_def
      stations_def dict_values_def keys_def getitem_def length_dict_setitem
      dict_keys_setitem dict_getitem_setitem_same dict_getitem_setitem_other)

theorem add_new_or_existing_witness:
  "\<not> contains registry_Ef (codename station_Kp) \<and>
   number_of_stations (snd (add registry_Ef station_Kp)) = 2 \<and>
   keys (snd (add registry_Ef station_Kp)) = [''Ef'', ''Kp''] \<and>
   contains registry_Ef (codename station_Ef) \<and>
   number_of_stations (snd (add registry_Ef station_Ef)) = 1"
  using add_new_or_existing [of registry_Ef station_Kp]
    add_new_or_existing [of registry_Ef station_Ef]
  by (simp add: contains_def dict_contains_def dict_keys_def number_of_stations_def
      stations_def dict_values_def)

text \<open>
  Claim C4. For every station and band, \<^verbatim>\<open>has_band(band)\<close> is true exactly when the band
  is a key of the SEFD dictionary; when it is, \<^verbatim>\<open>sefd(band)\<close> returns the stored value,
  and when it is not, \<^verbatim>\<open>sefd(band)\<close> raises \<^verbatim>\<open>KeyError\<close>.
\<close>

theorem has_band_sefd:
  "has_band self band = (band \<in> dom (sefds self)) \<and>
   (\<forall>v. sefds self band = Some v \<longrightarrow> sefd self band = Inr v) \<and>
   (band \<notin> dom (sefds self) \<longrightarrow> sefd self band = Inl KeyError)"
  by (auto simp: has_band_def bands_def sefds_def sefd_def split: option.splits)

theorem has_band_sefd_witness:
  "sefds station_Ef ''18cm'' = Some 19 \<and> has_band station_Ef ''18cm'' \<and>
   sefd station_Ef ''18cm'' = Inr 19 \<and>
   ''21cm'' \<notin> dom (sefds station_Ef) \<and> \<not> has_band station_Ef ''21cm'' \<and>
   sefd station_Ef ''21cm'' = Inl KeyError"
  using has_band_sefd [of station_Ef "''18cm''"] has_band_sefd [of station_Ef "''21cm''"]
  by (simp add: sefds_def Station_init_def)


text \<open>
  Claim C5. For every station, \<^verbatim>\<open>is_visible(times, target)\<close> returns the positions, in
  increasing order, at which the elevation is at least the station's minimum elevation;
  with a minimum elevation of 20 degrees and elevations 10, 25 and 30 degrees it returns
  the positions 1 and 2.
\<close>

theorem is_visible_indices:
  "(\<exists>idx. is_visible sky self obs_times target = Tuple1 idx \<and>
      sorted_wrt (<) idx \<and>
      set idx = {i. i < length (elevation sky self obs_times target) \<and>
                    min_elevation self \<le> elevation sky self obs_times target ! i}) \<and>
   (min_elevation self = 20 \<and> elevation sky self obs_times target = [10, 25, 30] \<longrightarrow>
      is_visible sky self obs_times target = Tuple1 [1, 2])"
proof (intro conjI impI)
  let ?es = "elevation sky self obs_times target"
  let ?idx = "filter (\<lambda>i. map (\<lambda>e. min_elevation self \<le> e) ?es ! i) [0..<length ?es]"
  have vis: "is_visible sky self obs_times target = Tuple1 ?idx"
    by (simp add: is_visible_def np_where_def Let_def)
  have "sorted_wrt (<) ?idx"
    by (rule sorted_wrt_filter) (simp add: sorted_wrt_upt)
  moreover have "set ?idx = {i. i < length ?es \<and> min_elevation self \<le> ?es ! i}"
    by auto
  ultimately show "\<exists>idx. is_visible sky self obs_times target = Tuple1 idx \<and>
      sorted_wrt (<) idx \<and> set idx = {i. i < length ?es \<and> min_elevation self \<le> ?es ! i}"
    using vis by blast
next
  assume a: "min_elevation self = 20 \<and> elevation sky self obs_times target = [10, 25, 30]"
  have "[0..<3] = [0, 1, 2::nat]" by (simp add: upt_rec)
  with a show "is_visible sky self obs_times target = Tuple1 [1, 2]"
    by (simp add: is_visible_def np_where_def Let_def)
qed

theorem is_visible_indices_witness:
  "min_elevation station_Ef = 20 \<and>
   elevation (\<lambda>ob ts tg. [(10, 0), (25, 90), (30, 180)]) station_Ef [0, 1, 2 :: nat] () =
     [10, 25, 30] \<and>
   is_visible (\<lambda>ob ts tg. [(10, 0), (25, 90), (30, 180)]) station_Ef [0, 1, 2 :: nat] () =
     Tuple1 [1, 2]"
  using is_visible_indices [of "\<lambda>ob ts tg. [(10, 0), (25, 90), (30, 180)]" station_Ef
      "[0, 1, 2 :: nat]" "()"]
  by (simp add: min_elevation_def elevation_def Station_init_def)

text \<open>
  Claim C6. For every name and list of stations, the constructor of \<^verbatim>\<open>Stations\<close> raises
  \<^verbatim>\<open>AssertionError\<close> when two stations of the list share a codename, and otherwise builds
  the registry that maps each codename to its station, in list order, with the key tuple
  in the same order.
\<close>

theorem Stations_init_distinct_codenames:
  "Stations_init nm sts =
     (if distinct (map codename sts)
      then Inr \<lparr> p_name = nm, p_stations = map (\<lambda>s. (codename s, s)) sts,
                 p_keys = map codename sts \<rparr>
      else Inl AssertionError)"
  by (simp add: Stations_init_def init_loop_eq dict_keys_def comp_def)

theorem Stations_init_distinct_codenames_witness:
  "Stations_init ''VLBI'' [station_Ef, station_Kp] =
     Inr \<lparr> p_name = ''VLBI'', p_stations = [(''Ef'', station_Ef), (''Kp'', station_Kp)],
           p_keys = [''Ef'', ''Kp''] \<rparr> \<and>
   Stations_init ''VLBI'' [station_Ef, station_Kp, station_Ef] = Inl AssertionError"
  using Stations_init_distinct_codenames [of "''VLBI''" "[station_Ef, station_Kp]"]
    Stations_init_distinct_codenames [of "''VLBI''" "[station_Ef, station_Kp, station_Ef]"]
  by simp

text \<open>
  Claim C7. In every registry built by the constructor and changed by \<^verbatim>\<open>add\<close>, by
  assignment to a key and by deletion (by key or by index, raising or not), \<^verbatim>\<open>keys()\<close>
  is the sequence of the dictionary's keys in their current order.
\<close>

theorem keys_cache_invariant:
  "reachable r \<Longrightarrow> keys r = dict_keys (p_stations r)"
  using reachable_wf [of r] by (simp add: wf_registry_def keys_def)

theorem keys_cache_invariant_witness:
  "reachable (snd (delitem (snd (add registry_Ef station_Kp)) (StrKey ''Ef''))) \<and>
   keys (snd (delitem (snd (add registry_Ef station_Kp)) (StrKey ''Ef''))) = [''Kp'']"
proof -
  have "Stations_init ''EVN'' [station_Ef] = Inr registry_Ef"
    by (simp add: Stations_init_def dict_contains_def dict_keys_def)
  then have "reachable registry_Ef" by (rule by_init)
  then have "reachable (snd (add registry_Ef station_Kp))" by (rule by_add)
  then have r: "reachable (snd (delitem (snd (add registry_Ef station_Kp)) (StrKey ''Ef'')))"
    by (rule by_delitem)
  from keys_cache_invariant [OF r] r show ?thesis
    by (simp add: add_def delitem_def dict_keys_def Let_def)
qed

text \<open>
  Claim C8. For every such registry and every index \<open>i\<close> with \<open>0 \<le> i\<close> below the number
  of stations, \<^verbatim>\<open>registry[i]\<close> returns the same station as
  \<^verbatim>\<open>registry[registry.keys()[i]]\<close>, namely the \<open>i\<close>-th station in iteration order.
\<close>

theorem getitem_index_is_key:
  "reachable r \<Longrightarrow> 0 \<le> i \<Longrightarrow> i < int (number_of_stations r) \<Longrightarrow>
     getitem r (IntKey i) = getitem r (StrKey (keys r ! nat i)) \<and>
     getitem r (IntKey i) = Inr (stations r ! nat i)"
proof -
  assume re: "reachable r" and i0: "0 \<le> i" and i1: "i < int (number_of_stations r)"
  let ?d = "p_stations r"
  from reachable_wf [OF re] have dist: "distinct (dict_keys ?d)" and k: "p_keys r = dict_keys ?d"
    by (simp_all add: wf_registry_def)
  from i0 i1 have n: "nat i < length ?d"
    by (simp add: number_of_stations_def stations_def dict_values_def)
  then have ti: "tuple_getitem (keys r) i = Inr (fst (?d ! nat i))"
    using i0 by (simp add: tuple_getitem_def keys_def k dict_keys_def Let_def)
  have kn: "keys r ! nat i = fst (?d ! nat i)"
    using n by (simp add: keys_def k dict_keys_def)
  have "dict_getitem ?d (fst (?d ! nat i)) = Inr (snd (?d ! nat i))"
    by (rule dict_getitem_nth [OF dist n])
  with ti kn n show ?thesis
    by (simp add: getitem_def stations_def dict_values_def)
qed

theorem getitem_index_is_key_witness:
  "reachable (snd (add registry_Ef station_Kp)) \<and>
   (0::int) \<le> 1 \<and> 1 < int (number_of_stations (snd (add registry_Ef station_Kp))) \<and>
   getitem (snd (add registry_Ef station_Kp)) (IntKey 1) =
     getitem (snd (add registry_Ef station_Kp)) (StrKey ''Kp'') \<and>
   getitem (snd (add registry_Ef station_Kp)) (IntKey 1) = Inr station_Kp"
proof -
  have "Stations_init ''EVN'' [station_Ef] = Inr registry_Ef"
    by (simp add: Stations_init_def dict_contains_def dict_keys_def)
  then have "reachable registry_Ef" by (rule by_init)
  then have r: "reachable (snd (add registry_Ef station_Kp))" by (rule by_add)
  have n: "1 < int (number_of_stations (snd (add registry_Ef station_Kp)))"
    by (simp add: add_def Let_def number_of_stations_def stations_def dict_values_def)
  from getitem_index_is_key [OF r _ n] r n show ?thesis
    by (simp add: add_def Let_def keys_def dict_keys_def stations_def dict_values_def
        getitem_def)
qed

text \<open>
  Claim C9. For every selectable station, assigning a value that is not a \<^verbatim>\<open>bool\<close> to
  \<^verbatim>\<open>selected\<close> raises (an \<^verbatim>\<open>AssertionError\<close>) at the assignment and leaves the object,
  and so its flag, unchanged; assigning a \<^verbatim>\<open>bool\<close> succeeds and stores it.
\<close>

theorem selected_setter_checks_type:
  "(\<not> isinstance_bool v \<longrightarrow> set_selected self v = (Some AssertionError, self)) \<and>
   set_selected self (PyBool b) = (None, self\<lparr> p_selected := PyBool b \<rparr>) \<and>
   selected (snd (set_selected self (PyBool b))) = PyBool b \<and>
   (isinstance_bool v \<longleftrightarrow> (\<exists>b'. v = PyBool b'))"
  by (cases v) (simp_all add: set_selected_def isinstance_bool_def selected_def)

theorem selected_setter_checks_type_witness:
  "\<not> isinstance_bool (PyInt 1) \<and>
   set_selected selected_Ef (PyInt 1) = (Some AssertionError, selected_Ef) \<and>
   selected (snd (set_selected selected_Ef (PyInt 1))) = PyBool True \<and>
   selected (snd (set_selected selected_Ef (PyBool False))) = PyBool False"
  using selected_setter_checks_type [of "PyInt 1" selected_Ef False]
  by (simp add: isinstance_bool_def selected_def SelectedStation_init_def
      Station.defs SelectedStation.defs Station_init_def)

subsection \<open>The constructor's name and full name\<close>

lemma name_Station_init:
  "name (Station_init nm cn nw loc fs me fn an co di rt) = str_replace (CHR ''_'') (CHR '' '') nm"
  by (simp add: name_def Station_init_def)

lemma name_SelectedStation_init:
  "name (SelectedStation_init nm cn nw loc fs me fn an co di rt sel) =
     str_replace (CHR ''_'') (CHR '' '') nm"
  by (simp add: name_def SelectedStation_init_def Station_init_def Station.defs)

lemma fullname_Station_init:
  "fullname (Station_init nm cn nw loc fs me fn an co di rt) =
     (case fn of None \<Rightarrow> nm | Some f \<Rightarrow> f)"
  by (simp add: fullname_def Station_init_def)

lemma fullname_SelectedStation_init:
  "fullname (SelectedStation_init nm cn nw loc fs me fn an co di rt sel) =
     (case fn of None \<Rightarrow> nm | Some f \<Rightarrow> f)"
  by (simp add: fullname_def SelectedStation_init_def Station_init_def Station.defs)

lemma str_replace_nth:
  "length (str_replace old new s) = length s \<and>
   (\<forall>i < length s. str_replace old new s ! i = (if s ! i = old then new else s ! i))"
  by (simp add: str_replace_def)

lemma str_replace_differs:
  assumes "old \<noteq> new" and "old \<in> set s"
  shows "str_replace old new s \<noteq> s"
proof -
  from assms(1) have "old \<notin> set (str_replace old new s)"
    by (auto simp: str_replace_def)
  with assms(2) show ?thesis by auto
qed

text \<open>
  Claim C10. For every station (plain or selectable) built from a name, whatever
  \<^verbatim>\<open>fullname\<close> argument is given, \<^verbatim>\<open>name\<close> is the given name with each underscore
  replaced by a space and every other character kept. When no \<^verbatim>\<open>fullname\<close> is given,
  \<^verbatim>\<open>fullname\<close> is the given name unchanged (and the given \<^verbatim>\<open>fullname\<close> otherwise), so
  \<^verbatim>\<open>name\<close> and the defaulted \<^verbatim>\<open>fullname\<close> differ whenever the given name contains an
  underscore.
\<close>

theorem name_replaces_underscores:
  "length (name (Station_init nm cn nw loc fs me fn an co di rt)) = length nm \<and>
   (\<forall>i < length nm.
      name (Station_init nm cn nw loc fs me fn an co di rt) ! i =
        (if nm ! i = CHR ''_'' then CHR '' '' else nm ! i)) \<and>
   length (name (SelectedStation_init nm cn nw loc fs me fn an co di rt sel)) = length nm \<and>
   (\<forall>i < length nm.
      name (SelectedStation_init nm cn nw loc fs me fn an co di rt sel) ! i =
        (if nm ! i = CHR ''_'' then CHR '' '' else nm ! i)) \<and>
   fullname (Station_init nm cn nw loc fs me None an co di rt) = nm \<and>
   fullname (SelectedStation_init nm cn nw loc fs me None an co di rt sel) = nm \<and>
   fullname (Station_init nm cn nw loc fs me (Some f) an co di rt) = f \<and>
   fullname (SelectedStation_init nm cn nw loc fs me (Some f) an co di rt sel) = f \<and>
   (CHR ''_'' \<in> set nm \<longrightarrow>
      name (Station_init nm cn nw loc fs me None an co di rt) \<noteq>
        fullname (Station_init nm cn nw loc fs me None an co di rt) \<and>
      name (SelectedStation_init nm cn nw loc fs me None an co di rt sel) \<noteq>
        fullname (SelectedStation_init nm cn nw loc fs me None an co di rt sel))"
proof -
  have diff: "CHR ''_'' \<in> set nm \<longrightarrow> str_replace (CHR ''_'') (CHR '' '') nm \<noteq> nm"
    using str_replace_differs [of "CHR ''_''" "CHR '' ''" nm] by simp
  show ?thesis
    using diff str_replace_nth [of "CHR ''_''" "CHR '' ''" nm]
    by (simp add: name_Station_init name_SelectedStation_init fullname_Station_init
        fullname_SelectedStation_init)
qed

theorem name_replaces_underscores_witness:
  "CHR ''_'' \<in> set ''Kitt_Peak'' \<and>
   name station_Kp \<noteq> fullname station_Kp \<and>
   length (name station_Kp) = length ''Kitt_Peak'' \<and>
   name station_Kp ! 4 = CHR '' '' \<and>
   name station_Kp ! 0 = CHR ''K'' \<and>
   fullname station_Kp = ''Kitt_Peak'' \<and>
   name (SelectedStation_init ''Kitt_Peak'' ''Kp'' ''VLBA'' (0, 0, 0) [''6cm'' \<mapsto> 210]
          (Bare 10) (Some ''Kitt Peak 25 m'') None ''USA'' ''25 m'' False None) ! 4 = CHR '' '' \<and>
   fullname (SelectedStation_init ''Kitt_Peak'' ''Kp'' ''VLBA'' (0, 0, 0) [''6cm'' \<mapsto> 210]
          (Bare 10) (Some ''Kitt Peak 25 m'') None ''USA'' ''25 m'' False None) = ''Kitt Peak 25 m''"
proof -
  let ?sel = "SelectedStation_init ''Kitt_Peak'' ''Kp'' ''VLBA'' (0, 0, 0) [''6cm'' \<mapsto> 210]
      (Bare 10) (Some ''Kitt Peak 25 m'') None ''USA'' ''25 m'' False None"
  have u: "CHR ''_'' \<in> set ''Kitt_Peak''" by simp
  have i4: "(4::nat) < length ''Kitt_Peak''" and i0: "(0::nat) < length ''Kitt_Peak''"
    by simp_all
  note a = name_replaces_underscores [of "''Kitt_Peak''" "''Kp''" "''VLBA''" "(0, 0, 0)"
      "[''6cm'' \<mapsto> 210]" "Bare 10" None None "''USA''" "''25 m''" False None "''x''"]
  note b = name_replaces_underscores [of "''Kitt_Peak''" "''Kp''" "''VLBA''" "(0, 0, 0)"
      "[''6cm'' \<mapsto> 210]" "Bare 10" "Some ''Kitt Peak 25 m''" None "''USA''" "''25 m''" False
      None "''Kitt Peak 25 m''"]
  from a u have a1: "name station_Kp \<noteq> fullname station_Kp" by blast
  from a have a2: "length (name station_Kp) = length ''Kitt_Peak''" by blast
  from a have a3: "\<forall>i < length ''Kitt_Peak''. name station_Kp ! i =
        (if ''Kitt_Peak'' ! i = CHR ''_'' then CHR '' '' else ''Kitt_Peak'' ! i)"
    by blast
  from a have a4: "fullname station_Kp = ''Kitt_Peak''" by blast
  from a3 i4 have "name station_Kp ! 4 =
      (if ''Kitt_Peak'' ! 4 = CHR ''_'' then CHR '' '' else ''Kitt_Peak'' ! 4)" by blast
  then have a5: "name station_Kp ! 4 = CHR '' ''" by simp
  from a3 i0 have "name station_Kp ! 0 =
      (if ''Kitt_Peak'' ! 0 = CHR ''_'' then CHR '' '' else ''Kitt_Peak'' ! 0)" by blast
  then have a6: "name station_Kp ! 0 = CHR ''K''" by simp
  from b have b3: "\<forall>i < length ''Kitt_Peak''. name ?sel ! i =
        (if ''Kitt_Peak'' ! i = CHR ''_'' then CHR '' '' else ''Kitt_Peak'' ! i)"
    by blast
  from b have b4: "fullname ?sel = ''Kitt Peak 25 m''" by blast
  from b3 i4 have "name ?sel ! 4 =
      (if ''Kitt_Peak'' ! 4 = CHR ''_'' then CHR '' '' else ''Kitt_Peak'' ! 4)" by blast
  then have b5: "name ?sel ! 4 = CHR '' ''" by simp
  from u a1 a2 a5 a6 a4 b5 b4 show ?thesis by blast
qed

end
